theory Spec2Isabelle
  imports Complex_Main "HOL-Library.AList"
begin

section \<open>Values on the wire\<close>

text \<open>
  Every link carries one text frame per message. \<open>json.loads\<close> turns the text into a
  Python value; the value is what the handlers inspect, so a frame is modelled by the
  value it parses to, or by \<open>NotJson\<close> when \<open>json.loads\<close> rejects the text.
  A Python dict is an association list read with \<open>map_of\<close> (first binding of a key)
  and written with \<open>AList.update\<close> (an existing key keeps its place, a new key goes
  to the end, as in a dict). Python floats are only transported by this program, never
  computed with; they are modelled by \<open>real\<close>, so the values are the finite ones. A
  string is a text that UTF-8 can encode.
\<close>

datatype json =
    JNull
  | JBool bool
  | JInt int
  | JFloat real
  | JStr string
  | JArr "json list"
  | JObj "(string \<times> json) list"

datatype frame = NotJson | Json json

datatype error =
    JSONDecodeError
  | TypeError
  | ValidationError
  | ValueError
  | AttributeError
  | IntegrityError
  | OverflowError

fun json_loads :: "frame \<Rightarrow> error + json" where
  "json_loads NotJson = Inl JSONDecodeError"
| "json_loads (Json j) = Inr j"

text \<open>\<open>d.get(k)\<close>: the value under \<open>k\<close>, or \<open>None\<close> when the key is missing.\<close>

definition dict_get :: "(string \<times> json) list \<Rightarrow> string \<Rightarrow> json" where
  "dict_get d k = (case map_of d k of None \<Rightarrow> JNull | Some v \<Rightarrow> v)"

text \<open>
  The text of an exception, \<open>str(e)\<close>, is produced by the libraries; the model keeps the
  name of the exception class in its place.
\<close>

fun str_of_error :: "error \<Rightarrow> string" where
  "str_of_error JSONDecodeError = ''JSONDecodeError''"
| "str_of_error TypeError = ''TypeError''"
| "str_of_error ValidationError = ''ValidationError''"
| "str_of_error ValueError = ''ValueError''"
| "str_of_error AttributeError = ''AttributeError''"
| "str_of_error IntegrityError = ''IntegrityError''"
| "str_of_error OverflowError = ''OverflowError''"

text \<open>\<open>json.dumps({"error": str(e)})\<close>, the payload both services send after a failure.\<close>

definition error_payload :: "error \<Rightarrow> json" where
  "error_payload e = JObj [(''error'', JStr (str_of_error e))]"


section \<open>common/models.py\<close>

subsection \<open>The validation of a field\<close>

text \<open>
  The models are validated by a library. For a field declared \<open>str\<close> it accepts a
  string and nothing else that JSON can carry. For a field declared \<open>bool\<close>, \<open>int\<close> or
  \<open>float\<close> it accepts a value of that kind as it is, rejects \<open>None\<close>, a list and a
  dict, and converts a scalar of another kind by rules of its own (a bool written as
  \<open>1\<close> or as a word, an int written as \<open>4.0\<close>, a float written as an int and rounded).
  These conversions, and the reading of a datetime from a JSON value (an ISO-8601
  string or an epoch number), are library code: they are the parameter \<open>lib\<close> of every
  function below that validates, and nothing is assumed of them.
\<close>

type_synonym datetime = int

record validation =
  lax_bool :: "json \<Rightarrow> bool option"
  lax_int :: "json \<Rightarrow> int option"
  lax_float :: "json \<Rightarrow> real option"
  validate_datetime :: "json \<Rightarrow> error + datetime"

definition converted :: "'a option \<Rightarrow> error + 'a" where
  "converted r = (case r of None \<Rightarrow> Inl ValidationError | Some x \<Rightarrow> Inr x)"

fun str_value :: "json \<Rightarrow> error + string" where
  "str_value (JStr s) = Inr s"
| "str_value _ = Inl ValidationError"

fun bool_value :: "validation \<Rightarrow> json \<Rightarrow> error + bool" where
  "bool_value lib (JBool b) = Inr b"
| "bool_value lib JNull = Inl ValidationError"
| "bool_value lib (JArr xs) = Inl ValidationError"
| "bool_value lib (JObj d) = Inl ValidationError"
| "bool_value lib v = converted (lax_bool lib v)"

fun int_value :: "validation \<Rightarrow> json \<Rightarrow> error + int" where
  "int_value lib (JInt i) = Inr i"
| "int_value lib JNull = Inl ValidationError"
| "int_value lib (JArr xs) = Inl ValidationError"
| "int_value lib (JObj d) = Inl ValidationError"
| "int_value lib v = converted (lax_int lib v)"

fun float_value :: "validation \<Rightarrow> json \<Rightarrow> error + real" where
  "float_value lib (JFloat x) = Inr x"
| "float_value lib JNull = Inl ValidationError"
| "float_value lib (JArr xs) = Inl ValidationError"
| "float_value lib (JObj d) = Inl ValidationError"
| "float_value lib v = converted (lax_float lib v)"

text \<open>A required keyword argument: a missing key is a validation error.\<close>

definition required :: "(json \<Rightarrow> error + 'a) \<Rightarrow> json option \<Rightarrow> error + 'a" where
  "required validate arg = (case arg of None \<Rightarrow> Inl ValidationError | Some v \<Rightarrow> validate v)"

text \<open>An \<open>Optional[...] = None\<close> field: a missing key and an explicit \<open>None\<close> both give \<open>None\<close>.\<close>

definition optional :: "(json \<Rightarrow> error + 'a) \<Rightarrow> json option \<Rightarrow> error + 'a option" where
  "optional validate arg =
     (case arg of
        None \<Rightarrow> Inr None
      | Some JNull \<Rightarrow> Inr None
      | Some v \<Rightarrow> (case validate v of Inl e \<Rightarrow> Inl e | Inr x \<Rightarrow> Inr (Some x)))"

text \<open>Sequencing of steps that may raise: the first exception ends the computation.\<close>

definition and_then :: "error + 'a \<Rightarrow> ('a \<Rightarrow> error + 'b) \<Rightarrow> error + 'b" where
  "and_then m f = (case m of Inl e \<Rightarrow> Inl e | Inr x \<Rightarrow> f x)"

subsection \<open>Client\<close>

record Client =
  name :: string
  ip :: string
  online :: bool

text \<open>
  \<open>Client(**client_data)\<close>. The double star needs a mapping, anything else is a
  \<open>TypeError\<close> (this is what happens when \<open>contents.get("client")\<close> is \<open>None\<close>).
  \<open>name\<close> and \<open>ip\<close> are required strings; \<open>online\<close> is a bool that defaults to \<open>True\<close>
  when the key is missing; other keys are ignored.
\<close>

definition Client_init :: "validation \<Rightarrow> json \<Rightarrow> error + Client" where
  "Client_init lib client_data =
     (case client_data of
        JObj d \<Rightarrow>
          and_then (required str_value (map_of d ''name'')) (\<lambda>n.
          and_then (required str_value (map_of d ''ip'')) (\<lambda>i.
          and_then (case map_of d ''online'' of
                      None \<Rightarrow> Inr True
                    | Some v \<Rightarrow> bool_value lib v) (\<lambda>b.
            Inr \<lparr>name = n, ip = i, online = b\<rparr>)))
      | _ \<Rightarrow> Inl TypeError)"

text \<open>\<open>client.model_dump()\<close>\<close>

definition Client_model_dump :: "Client \<Rightarrow> json" where
  "Client_model_dump c =
     JObj [(''name'', JStr (name c)), (''ip'', JStr (ip c)), (''online'', JBool (online c))]"

subsection \<open>Server\<close>

record Server =
  server_id :: "int option"
  server_ip :: string

text \<open>\<open>Server(ip=ip)\<close>: \<open>ip\<close> must be a string, \<open>id\<close> stays \<open>None\<close>.\<close>

definition Server_init :: "json \<Rightarrow> error + Server" where
  "Server_init ip_value =
     (case ip_value of
        JStr a \<Rightarrow> Inr \<lparr>server_id = None, server_ip = a\<rparr>
      | _ \<Rightarrow> Inl ValidationError)"

definition Server_model_dump :: "Server \<Rightarrow> json" where
  "Server_model_dump s =
     JObj [(''id'', (case server_id s of None \<Rightarrow> JNull | Some i \<Rightarrow> JInt i)),
           (''ip'', JStr (server_ip s))]"

subsection \<open>Command\<close>

record Command =
  cmd_type :: string
  contents :: "(string \<times> json) list"

abbreviation CLIENT_REGIST :: string where "CLIENT_REGIST \<equiv> ''CLIENT_REGIST''"
abbreviation CLIENT_ONLINE :: string where "CLIENT_ONLINE \<equiv> ''CLIENT_ONLINE''"
abbreviation CLIENT_REPORT :: string where "CLIENT_REPORT \<equiv> ''CLIENT_REPORT''"
abbreviation SERVER_ONLINE :: string where "SERVER_ONLINE \<equiv> ''SERVER_ONLINE''"

text \<open>\<open>Command(**command_data)\<close>: \<open>type\<close> a string and \<open>contents\<close> a dict, both required.\<close>

definition Command_init :: "json \<Rightarrow> error + Command" where
  "Command_init command_data =
     (case command_data of
        JObj d \<Rightarrow>
          (case (map_of d ''type'', map_of d ''contents'') of
             (Some (JStr t), Some (JObj c)) \<Rightarrow> Inr \<lparr>cmd_type = t, contents = c\<rparr>
           | _ \<Rightarrow> Inl ValidationError)
      | _ \<Rightarrow> Inl TypeError)"

definition Command_model_dump :: "Command \<Rightarrow> json" where
  "Command_model_dump c = JObj [(''type'', JStr (cmd_type c)), (''contents'', JObj (contents c))]"

definition create_client_register :: "Client \<Rightarrow> Command" where
  "create_client_register client =
     \<lparr>cmd_type = CLIENT_REGIST, contents = [(''client'', Client_model_dump client)]\<rparr>"

definition create_client_online :: "Client \<Rightarrow> Command" where
  "create_client_online client =
     \<lparr>cmd_type = CLIENT_ONLINE, contents = [(''client'', Client_model_dump client)]\<rparr>"

definition create_server_online :: "Server \<Rightarrow> Command" where
  "create_server_online server =
     \<lparr>cmd_type = SERVER_ONLINE, contents = [(''ip'', JStr (server_ip server))]\<rparr>"

text \<open>What a sender puts on the wire: \<open>json.dumps(command.model_dump())\<close>.\<close>

definition send_command :: "Command \<Rightarrow> frame" where
  "send_command c = Json (Command_model_dump c)"


subsection \<open>Report\<close>

text \<open>
  A \<open>datetime\<close> is a point on the time line (an integer count of microseconds). How a
  datetime is written, \<open>datetime.isoformat\<close>, is library code too: the parameter
  \<open>isoformat\<close> of the function that writes one.
\<close>

record Report =
  report_name :: string
  report_os :: string
  load :: real
  cpus :: int
  memory_total :: "real option"
  memory_used :: "real option"
  memory_percent :: "real option"
  disk_total :: "real option"
  disk_used :: "real option"
  disk_percent :: "real option"
  timestamp :: "datetime option"

text \<open>\<open>Report(**report_data)\<close>\<close>

definition Report_init :: "validation \<Rightarrow> json \<Rightarrow> error + Report" where
  "Report_init lib report_data =
     (case report_data of
        JObj d \<Rightarrow>
          and_then (required str_value (map_of d ''name'')) (\<lambda>n.
          and_then (required str_value (map_of d ''os'')) (\<lambda>os.
          and_then (required (float_value lib) (map_of d ''load'')) (\<lambda>l.
          and_then (required (int_value lib) (map_of d ''cpus'')) (\<lambda>c.
          and_then (optional (float_value lib) (map_of d ''memory_total'')) (\<lambda>mt.
          and_then (optional (float_value lib) (map_of d ''memory_used'')) (\<lambda>mu.
          and_then (optional (float_value lib) (map_of d ''memory_percent'')) (\<lambda>mp.
          and_then (optional (float_value lib) (map_of d ''disk_total'')) (\<lambda>dt.
          and_then (optional (float_value lib) (map_of d ''disk_used'')) (\<lambda>du.
          and_then (optional (float_value lib) (map_of d ''disk_percent'')) (\<lambda>dp.
          and_then (optional (validate_datetime lib) (map_of d ''timestamp'')) (\<lambda>ts.
            Inr \<lparr>report_name = n, report_os = os, load = l, cpus = c,
                 memory_total = mt, memory_used = mu, memory_percent = mp,
                 disk_total = dt, disk_used = du, disk_percent = dp,
                 timestamp = ts\<rparr>)))))))))))
      | _ \<Rightarrow> Inl TypeError)"

fun optional_float_dump :: "real option \<Rightarrow> json" where
  "optional_float_dump None = JNull"
| "optional_float_dump (Some x) = JFloat x"

text \<open>
  \<open>Command.create_client_report\<close>: \<open>report.model_dump()\<close>, in which a timestamp that is
  present (a datetime object is always truthy) is replaced by its \<open>isoformat()\<close> text,
  under the key \<open>report\<close>.
\<close>

definition create_client_report :: "(datetime \<Rightarrow> string) \<Rightarrow> Report \<Rightarrow> Command" where
  "create_client_report isoformat report =
     \<lparr>cmd_type = CLIENT_REPORT,
      contents = [(''report'', JObj
        [(''name'', JStr (report_name report)),
         (''os'', JStr (report_os report)),
         (''load'', JFloat (load report)),
         (''cpus'', JInt (cpus report)),
         (''memory_total'', optional_float_dump (memory_total report)),
         (''memory_used'', optional_float_dump (memory_used report)),
         (''memory_percent'', optional_float_dump (memory_percent report)),
         (''disk_total'', optional_float_dump (disk_total report)),
         (''disk_used'', optional_float_dump (disk_used report)),
         (''disk_percent'', optional_float_dump (disk_percent report)),
         (''timestamp'', (case timestamp report of None \<Rightarrow> JNull | Some t \<Rightarrow> JStr (isoformat t)))])]\<rparr>"

text \<open>
  \<open>Report.to_db_dict\<close>: the same keys, with \<open>self.timestamp or datetime.utcnow()\<close> as
  the timestamp; \<open>now\<close> is the reading of the clock.
\<close>

definition to_db_dict :: "datetime \<Rightarrow> Report \<Rightarrow> Report" where
  "to_db_dict now report =
     report\<lparr>timestamp := Some (case timestamp report of None \<Rightarrow> now | Some t \<Rightarrow> t)\<rparr>"


section \<open>common/system_info.py\<close>

text \<open>
  \<open>SystemInfo.get_system_report\<close>: the readings of the host (\<open>get_os_info()\<close>,
  \<open>get_avg_load()\<close>, \<open>get_cpu_count()\<close> and the clock in milliseconds) are arguments.
  The dict has these five keys and no other.
\<close>

definition get_system_report :: "string \<Rightarrow> string \<Rightarrow> real \<Rightarrow> int \<Rightarrow> int \<Rightarrow> json" where
  "get_system_report client_name os_info avg_load cpu_count time_ms =
     JObj [(''name'', JStr client_name),
           (''os'', JStr os_info),
           (''load'', JFloat avg_load),
           (''cpus'', JInt cpu_count),
           (''timestamp'', JInt time_ms)]"


section \<open>common/database.py\<close>

text \<open>
  A table is the list of its rows in the order of insertion. The columns \<open>id\<close>,
  \<open>created_at\<close> and \<open>last_seen\<close> are read by no operation below and are left out.
  Every column of \<open>records\<close> is declared \<open>nullable=False\<close>, so a stored row has a value
  in each of them.
\<close>

record DBClient =
  db_name :: string
  db_ip :: string
  db_online :: bool

record Record =
  record_name :: string
  record_os :: string
  record_load :: real
  record_cpus :: int
  record_memory_total :: real
  record_memory_used :: real
  record_memory_percent :: real
  record_disk_total :: real
  record_disk_used :: real
  record_disk_percent :: real
  record_timestamp :: datetime

subsection \<open>ClientDAO\<close>

definition ClientDAO_get_all :: "DBClient list \<Rightarrow> DBClient list" where
  "ClientDAO_get_all db = db"

definition ClientDAO_get_online :: "DBClient list \<Rightarrow> DBClient list" where
  "ClientDAO_get_online db = filter db_online db"

text \<open>
  \<open>create_or_update\<close>, \<open>set_offline\<close> and \<open>delete\<close> work on
  \<open>db.query(Client).filter(Client.name == name).first()\<close>, the first row of that name.
\<close>

fun ClientDAO_create_or_update :: "DBClient list \<Rightarrow> string \<Rightarrow> string \<Rightarrow> bool \<Rightarrow> DBClient list" where
  "ClientDAO_create_or_update [] n i b = [\<lparr>db_name = n, db_ip = i, db_online = b\<rparr>]"
| "ClientDAO_create_or_update (c # db) n i b =
     (if db_name c = n then c\<lparr>db_ip := i, db_online := b\<rparr> # db
      else c # ClientDAO_create_or_update db n i b)"

fun ClientDAO_set_offline :: "DBClient list \<Rightarrow> string \<Rightarrow> bool \<times> DBClient list" where
  "ClientDAO_set_offline [] n = (False, [])"
| "ClientDAO_set_offline (c # db) n =
     (if db_name c = n then (True, c\<lparr>db_online := False\<rparr> # db)
      else (case ClientDAO_set_offline db n of (found, db') \<Rightarrow> (found, c # db')))"

fun ClientDAO_delete :: "DBClient list \<Rightarrow> string \<Rightarrow> bool \<times> DBClient list" where
  "ClientDAO_delete [] n = (False, [])"
| "ClientDAO_delete (c # db) n =
     (if db_name c = n then (True, db)
      else (case ClientDAO_delete db n of (found, db') \<Rightarrow> (found, c # db')))"

subsection \<open>RecordDAO\<close>

text \<open>
  \<open>RecordDAO.create\<close>: \<open>Record(**record_data)\<close>, \<open>db.add\<close>, \<open>db.commit\<close>. The commit
  inserts the row; a \<open>None\<close> in a column declared \<open>nullable=False\<close> makes the insert
  fail with \<open>IntegrityError\<close> and nothing is stored. The column \<open>cpus\<close> is an SQLite
  INTEGER, a signed 64-bit number: for a Python int outside that range the driver raises
  \<open>OverflowError\<close> and nothing is stored either. (When both apply the model names the
  missing value; the caller treats the two alike. A \<open>None\<close> timestamp would get the
  column default, the clock; \<open>to_db_dict\<close> never passes one.)
\<close>

definition RecordDAO_create :: "datetime \<Rightarrow> Record list \<Rightarrow> Report \<Rightarrow> error + Record list" where
  "RecordDAO_create now db record_data =
     (case (memory_total record_data, memory_used record_data, memory_percent record_data,
            disk_total record_data, disk_used record_data, disk_percent record_data) of
        (Some mt, Some mu, Some mp, Some dt, Some du, Some dp) \<Rightarrow>
          if cpus record_data < - (2 ^ 63) \<or> 2 ^ 63 \<le> cpus record_data then Inl OverflowError
          else
          Inr (db @ [\<lparr>record_name = report_name record_data,
                      record_os = report_os record_data,
                      record_load = load record_data,
                      record_cpus = cpus record_data,
                      record_memory_total = mt, record_memory_used = mu,
                      record_memory_percent = mp,
                      record_disk_total = dt, record_disk_used = du,
                      record_disk_percent = dp,
                      record_timestamp =
                        (case timestamp record_data of None \<Rightarrow> now | Some t \<Rightarrow> t)\<rparr>])
      | _ \<Rightarrow> Inl IntegrityError)"

text \<open>
  \<open>RecordDAO.get_all_latest\<close> builds its subquery from
  \<open>db.func.max(Record.timestamp)\<close>. Here \<open>db\<close> is the session made by
  \<open>SessionLocal()\<close>, and a session has no attribute \<open>func\<close> (\<open>func\<close> belongs to the
  \<open>sqlalchemy\<close> module and is not imported): evaluating the first argument list raises
  \<open>AttributeError\<close>, whatever the table holds.
\<close>

definition RecordDAO_get_all_latest :: "Record list \<Rightarrow> error + Record list" where
  "RecordDAO_get_all_latest db = Inl AttributeError"

text \<open>
  The query that the body writes down, had \<open>func\<close> been \<open>sqlalchemy.func\<close>: the subquery
  is, per name, the greatest timestamp; the join keeps every row whose name and
  timestamp equal a row of the subquery.
\<close>

definition max_timestamp :: "Record list \<Rightarrow> string \<Rightarrow> datetime option" where
  "max_timestamp db n =
     (case [record_timestamp r. r \<leftarrow> db, record_name r = n] of
        [] \<Rightarrow> None
      | t # ts \<Rightarrow> Some (fold max ts t))"

definition get_all_latest_query :: "Record list \<Rightarrow> Record list" where
  "get_all_latest_query db =
     [r \<leftarrow> db. max_timestamp db (record_name r) = Some (record_timestamp r)]"


section \<open>register/main.py\<close>

text \<open>
  The two module-level dicts and the connection list of the manager. A WebSocket is
  identified by a number.
\<close>

record register_state =
  reg_registered_clients :: "(string \<times> Client) list"
  registered_servers :: "(string \<times> Server) list"
  reg_active_connections :: "nat list"

definition register_init :: register_state where
  "register_init = \<lparr>reg_registered_clients = [], registered_servers = [], reg_active_connections = []\<rparr>"

text \<open>
  The handling of one command, inside the inner \<open>try\<close>: the new state and the messages
  sent to the websocket of this handler, or the exception that reaches the \<open>except\<close>.
  An exception is raised before any dict is written, so the state it leaves is the old
  one.
\<close>

definition register_command ::
  "validation \<Rightarrow> Command \<Rightarrow> register_state \<Rightarrow> error + (register_state \<times> json list)" where
  "register_command lib command st =
     (if cmd_type command = CLIENT_REGIST then
        (case Client_init lib (dict_get (contents command) ''client'') of
           Inl e \<Rightarrow> Inl e
         | Inr client \<Rightarrow>
             Inr (st\<lparr>reg_registered_clients := AList.update (name client) client (reg_registered_clients st)\<rparr>,
                  (case registered_servers st of
                     [] \<Rightarrow> []
                   | (_, server) # _ \<Rightarrow> [Server_model_dump server])))
      else if cmd_type command = CLIENT_ONLINE then
        (case Client_init lib (dict_get (contents command) ''client'') of
           Inl e \<Rightarrow> Inl e
         | Inr client \<Rightarrow>
             Inr (st\<lparr>reg_registered_clients := AList.update (name client) client (reg_registered_clients st)\<rparr>, []))
      else if cmd_type command = SERVER_ONLINE then
        (case Server_init (dict_get (contents command) ''ip'') of
           Inl e \<Rightarrow> Inl e
         | Inr server \<Rightarrow>
             Inr (st\<lparr>registered_servers := AList.update (server_ip server) server (registered_servers st)\<rparr>, []))
      else Inr (st, []))"

text \<open>One turn of the receive loop: parse, handle, and answer a failure with the error payload.\<close>

definition register_receive ::
  "validation \<Rightarrow> frame \<Rightarrow> register_state \<Rightarrow> register_state \<times> json list" where
  "register_receive lib data st =
     (case json_loads data of
        Inl e \<Rightarrow> (st, [error_payload e])
      | Inr command_data \<Rightarrow>
          (case Command_init command_data of
             Inl e \<Rightarrow> (st, [error_payload e])
           | Inr command \<Rightarrow>
               (case register_command lib command st of
                  Inl e \<Rightarrow> (st, [error_payload e])
                | Inr r \<Rightarrow> r)))"

text \<open>
  The \<open>except WebSocketDisconnect\<close> branch: \<open>list.remove\<close> takes the first occurrence
  out and raises \<open>ValueError\<close> when there is none.
\<close>

definition register_disconnect :: "nat \<Rightarrow> register_state \<Rightarrow> error option \<times> register_state" where
  "register_disconnect websocket st =
     (if websocket \<in> set (reg_active_connections st)
      then (None, st\<lparr>reg_active_connections := remove1 websocket (reg_active_connections st)\<rparr>)
      else (Some ValueError, st))"

definition register_connect :: "nat \<Rightarrow> register_state \<Rightarrow> register_state" where
  "register_connect websocket st = st\<lparr>reg_active_connections := reg_active_connections st @ [websocket]\<rparr>"

subsection \<open>The register channels over time\<close>

text \<open>
  A call of \<open>websocket_endpoint\<close> of the register keeps nothing of its own between two
  frames, so what happens to the register is a sequence of connections, received frames
  and disconnections.
\<close>

datatype register_event =
    RegConnect nat
  | RegReceive frame
  | RegDisconnect nat

fun register_step :: "validation \<Rightarrow> register_state \<Rightarrow> register_event \<Rightarrow> register_state" where
  "register_step lib st (RegConnect ws) = register_connect ws st"
| "register_step lib st (RegReceive data) = fst (register_receive lib data st)"
| "register_step lib st (RegDisconnect ws) = snd (register_disconnect ws st)"

definition register_run :: "validation \<Rightarrow> register_state \<Rightarrow> register_event list \<Rightarrow> register_state" where
  "register_run lib st evs = foldl (register_step lib) st evs"




section \<open>server/main.py\<close>

text \<open>
  The module-level \<open>registered_clients\<close> and \<open>offline_clients\<close>, the connection list
  of the manager, and the two tables the handlers write. On a disconnect the handler
  sets \<open>online\<close> of the object held in \<open>registered_clients\<close> and appends that same
  object to \<open>offline_clients\<close>; an object is only ever changed in this way, by setting
  \<open>online\<close> to \<open>False\<close>, and it enters \<open>offline_clients\<close> after the change, so copies
  stand for the shared objects without loss.
\<close>

record server_state =
  registered_clients :: "(string \<times> Client) list"
  offline_clients :: "Client list"
  active_connections :: "nat list"
  db_clients :: "DBClient list"
  db_records :: "Record list"

definition server_init :: server_state where
  "server_init = \<lparr>registered_clients = [], offline_clients = [], active_connections = [],
                  db_clients = [], db_records = []\<rparr>"

text \<open>
  The body of the inner \<open>try\<close> of \<open>websocket_endpoint\<close> for a parsed command. The local
  variable \<open>client_name\<close> of the handler is an argument and a result. Both database
  blocks catch and log what the DAO raises, so a failed insert of a report leaves the
  state as it was and raises nothing here. The write to the client table has nothing to
  fail on: the validated \<open>name\<close> and \<open>ip\<close> are strings, which is all the table asks.
\<close>

definition server_command ::
  "validation \<Rightarrow> datetime \<Rightarrow> Command \<Rightarrow> string option \<Rightarrow> server_state
     \<Rightarrow> error + (string option \<times> server_state)" where
  "server_command lib now command client_name st =
     (if cmd_type command = CLIENT_ONLINE then
        (case Client_init lib (dict_get (contents command) ''client'') of
           Inl e \<Rightarrow> Inl e
         | Inr client \<Rightarrow>
             Inr (Some (name client),
                  st\<lparr>registered_clients := AList.update (name client) client (registered_clients st),
                     db_clients := ClientDAO_create_or_update (db_clients st) (name client) (ip client) True,
                     offline_clients := filter (\<lambda>c. name c \<noteq> name client) (offline_clients st)\<rparr>))
      else if cmd_type command = CLIENT_REPORT then
        (case Report_init lib (dict_get (contents command) ''report'') of
           Inl e \<Rightarrow> Inl e
         | Inr report \<Rightarrow>
             Inr (client_name,
                  (case RecordDAO_create now (db_records st) (to_db_dict now report) of
                     Inl e \<Rightarrow> st
                   | Inr db \<Rightarrow> st\<lparr>db_records := db\<rparr>)))
      else Inr (client_name, st))"

text \<open>
  One turn of the receive loop: the new \<open>client_name\<close>, the new state, and the messages
  sent to the websocket of this handler.
\<close>

definition server_receive ::
  "validation \<Rightarrow> datetime \<Rightarrow> frame \<Rightarrow> string option \<Rightarrow> server_state
     \<Rightarrow> string option \<times> server_state \<times> json list" where
  "server_receive lib now data client_name st =
     (case json_loads data of
        Inl e \<Rightarrow> (client_name, st, [error_payload e])
      | Inr command_data \<Rightarrow>
          (case Command_init command_data of
             Inl e \<Rightarrow> (client_name, st, [error_payload e])
           | Inr command \<Rightarrow>
               (case server_command lib now command client_name st of
                  Inl e \<Rightarrow> (client_name, st, [error_payload e])
                | Inr (client_name', st') \<Rightarrow> (client_name', st', []))))"

text \<open>
  The \<open>except WebSocketDisconnect\<close> branch. \<open>manager.disconnect\<close> is \<open>list.remove\<close>,
  which raises \<open>ValueError\<close> when the websocket is not in the list; nothing after it
  runs then. \<open>if client_name and client_name in registered_clients\<close>: \<open>None\<close> and the
  empty string are both false.
\<close>

definition server_disconnect :: "nat \<Rightarrow> string option \<Rightarrow> server_state \<Rightarrow> error option \<times> server_state" where
  "server_disconnect websocket client_name st =
     (if websocket \<notin> set (active_connections st) then (Some ValueError, st)
      else
        let st1 = st\<lparr>active_connections := remove1 websocket (active_connections st)\<rparr> in
        (case client_name of
           None \<Rightarrow> (None, st1)
         | Some cn \<Rightarrow>
             if cn = [] then (None, st1)
             else
               (case map_of (registered_clients st1) cn of
                  None \<Rightarrow> (None, st1)
                | Some client \<Rightarrow>
                    (None,
                     st1\<lparr>registered_clients :=
                           AList.update cn (client\<lparr>online := False\<rparr>) (registered_clients st1),
                         offline_clients := offline_clients st1 @ [client\<lparr>online := False\<rparr>],
                         db_clients := snd (ClientDAO_set_offline (db_clients st1) cn)\<rparr>))))"

text \<open>\<open>GET /clients\<close>: the rows that \<open>ClientDAO.get_online\<close> returns.\<close>

definition get_clients :: "server_state \<Rightarrow> DBClient list" where
  "get_clients st = ClientDAO_get_online (db_clients st)"

text \<open>
  \<open>GET /alert\<close>: the rows of the table that are not online, then the entries of
  \<open>offline_clients\<close> whose name is not in the answer yet.
\<close>

definition get_offline_clients :: "server_state \<Rightarrow> Client list" where
  "get_offline_clients st =
     fold (\<lambda>client acc.
             if name client \<in> set (map name acc) then acc
             else acc @ [\<lparr>name = name client, ip = ip client, online = False\<rparr>])
          (offline_clients st)
          [\<lparr>name = db_name c, ip = db_ip c, online = False\<rparr>.
             c \<leftarrow> ClientDAO_get_all (db_clients st), \<not> db_online c]"

text \<open>\<open>GET /delclient\<close>: the answer and the new state.\<close>

definition delete_client :: "string \<Rightarrow> server_state \<Rightarrow> json \<times> server_state" where
  "delete_client n st =
     (case ClientDAO_delete (db_clients st) n of
        (True, db) \<Rightarrow>
          (JObj [],
           st\<lparr>db_clients := db,
              registered_clients := AList.delete n (registered_clients st),
              offline_clients := filter (\<lambda>c. name c \<noteq> n) (offline_clients st)\<rparr>)
      | (False, _) \<Rightarrow> (JObj [(''error'', JStr ''Client not found'')], st))"

subsection \<open>The telemetry channels over time\<close>

text \<open>
  Each accepted websocket runs one call of \<open>websocket_endpoint\<close>, which holds the local
  variable \<open>client_name\<close> (\<open>None\<close> until a \<open>CLIENT_ONLINE\<close> is handled) and ends after
  the \<open>except\<close> branch. \<open>endpoints\<close> lists the running calls with their \<open>client_name\<close>.
  A running call with \<open>client_name = n\<close> on a websocket of the connection list is the
  session of agent \<open>n\<close>.
\<close>

record monitor =
  globals :: server_state
  endpoints :: "(nat \<times> string option) list"

definition monitor_init :: monitor where
  "monitor_init = \<lparr>globals = server_init, endpoints = []\<rparr>"

datatype event =
    Connect nat
  | Receive nat datetime frame
  | Disconnect nat

fun monitor_step :: "validation \<Rightarrow> monitor \<Rightarrow> event \<Rightarrow> monitor" where
  "monitor_step v m (Connect ws) =
     \<lparr>globals = (globals m)\<lparr>active_connections := active_connections (globals m) @ [ws]\<rparr>,
      endpoints = AList.update ws None (endpoints m)\<rparr>"
| "monitor_step v m (Receive ws now data) =
     (case map_of (endpoints m) ws of
        None \<Rightarrow> m
      | Some client_name \<Rightarrow>
          (case server_receive v now data client_name (globals m) of
             (client_name', st', sent) \<Rightarrow>
               \<lparr>globals = st', endpoints = AList.update ws client_name' (endpoints m)\<rparr>))"
| "monitor_step v m (Disconnect ws) =
     (case map_of (endpoints m) ws of
        None \<Rightarrow> m
      | Some client_name \<Rightarrow>
          \<lparr>globals = snd (server_disconnect ws client_name (globals m)),
           endpoints = AList.delete ws (endpoints m)\<rparr>)"

definition run :: "validation \<Rightarrow> monitor \<Rightarrow> event list \<Rightarrow> monitor" where
  "run v m evs = foldl (monitor_step v) m evs"

text \<open>What a reader of \<open>GET /clients\<close> sees for a name, and whether a session of that name exists.\<close>

definition online_flag :: "monitor \<Rightarrow> string \<Rightarrow> bool" where
  "online_flag m n = (n \<in> set (map db_name (get_clients (globals m))))"

definition live_session :: "monitor \<Rightarrow> string \<Rightarrow> bool" where
  "live_session m n =
     (Some (Some n) \<in> set (map (map_of (endpoints m)) (active_connections (globals m))))"

text \<open>The client that a frame announces, when it is a well-formed \<open>CLIENT_ONLINE\<close>.\<close>

definition announced :: "validation \<Rightarrow> frame \<Rightarrow> Client option" where
  "announced lib data =
     (case json_loads data of
        Inl e \<Rightarrow> None
      | Inr command_data \<Rightarrow>
          (case Command_init command_data of
             Inl e \<Rightarrow> None
           | Inr command \<Rightarrow>
               if cmd_type command = CLIENT_ONLINE
               then (case Client_init lib (dict_get (contents command) ''client'') of
                       Inl e \<Rightarrow> None | Inr client \<Rightarrow> Some client)
               else None))"

text \<open>
  The discipline of the bundled agent, one agent per channel and one channel per agent:
  a websocket is new when it connects; a \<open>CLIENT_ONLINE\<close> carries a non-empty name, is
  the first on its channel (or repeats the name of the channel), and names no agent
  that another running channel has announced.
\<close>

fun disciplined :: "validation \<Rightarrow> monitor \<Rightarrow> event \<Rightarrow> bool" where
  "disciplined v m (Connect ws) =
     (ws \<notin> set (active_connections (globals m)) \<and> map_of (endpoints m) ws = None)"
| "disciplined v m (Receive ws now data) =
     (case announced v data of
        None \<Rightarrow> True
      | Some client \<Rightarrow>
          name client \<noteq> [] \<and>
          (map_of (endpoints m) ws = Some None \<or> map_of (endpoints m) ws = Some (Some (name client))) \<and>
          list_all (\<lambda>(ws', cn). ws' = ws \<or> cn \<noteq> Some (name client)) (endpoints m))"
| "disciplined v m (Disconnect ws) = True"

fun disciplined_run :: "validation \<Rightarrow> monitor \<Rightarrow> event list \<Rightarrow> bool" where
  "disciplined_run v m [] = True"
| "disciplined_run v m (e # evs) = (disciplined v m e \<and> disciplined_run v (monitor_step v m e) evs)"

section \<open>Notions used in the statements\<close>

text \<open>The client that a frame brings to the register, when it is a well-formed
  \<open>CLIENT_REGIST\<close> or \<open>CLIENT_ONLINE\<close>.\<close>

definition registered_client_of :: "validation \<Rightarrow> frame \<Rightarrow> Client option" where
  "registered_client_of lib data =
     (case json_loads data of
        Inl e \<Rightarrow> None
      | Inr command_data \<Rightarrow>
          (case Command_init command_data of
             Inl e \<Rightarrow> None
           | Inr command \<Rightarrow>
               if cmd_type command = CLIENT_REGIST \<or> cmd_type command = CLIENT_ONLINE
               then (case Client_init lib (dict_get (contents command) ''client'') of
                       Inl e \<Rightarrow> None | Inr client \<Rightarrow> Some client)
               else None))"

text \<open>What a frame with the type \<open>CLIENT_REGIST\<close> hands to \<open>Client(**client_data)\<close>.\<close>

definition client_regist_data :: "frame \<Rightarrow> json option" where
  "client_regist_data data =
     (case json_loads data of
        Inl e \<Rightarrow> None
      | Inr command_data \<Rightarrow>
          (case Command_init command_data of
             Inl e \<Rightarrow> None
           | Inr command \<Rightarrow>
               if cmd_type command = CLIENT_REGIST
               then Some (dict_get (contents command) ''client'')
               else None))"

text \<open>Whether an event of the register is a frame that brings a client of the name \<open>k\<close>.\<close>

fun brings_client :: "validation \<Rightarrow> string \<Rightarrow> register_event \<Rightarrow> bool" where
  "brings_client lib k (RegReceive data) =
     (case registered_client_of lib data of None \<Rightarrow> False | Some c \<Rightarrow> name c = k)"
| "brings_client lib k (RegConnect ws) = False"
| "brings_client lib k (RegDisconnect ws) = False"

text \<open>The report that the monitor decodes from a frame, when the frame is a
  \<open>CLIENT_REPORT\<close> whose contents validate.\<close>

definition received_report :: "validation \<Rightarrow> frame \<Rightarrow> Report option" where
  "received_report lib data =
     (case json_loads data of
        Inl e \<Rightarrow> None
      | Inr command_data \<Rightarrow>
          (case Command_init command_data of
             Inl e \<Rightarrow> None
           | Inr command \<Rightarrow>
               if cmd_type command = CLIENT_REPORT
               then (case Report_init lib (dict_get (contents command) ''report'') of
                       Inl e \<Rightarrow> None | Inr report \<Rightarrow> Some report)
               else None))"

definition lacks_memory_or_disk :: "Report \<Rightarrow> bool" where
  "lacks_memory_or_disk r =
     (memory_total r = None \<or> memory_used r = None \<or> memory_percent r = None \<or>
      disk_total r = None \<or> disk_used r = None \<or> disk_percent r = None)"

text \<open>Values for the examples: a library that reads \<open>1\<close> and \<open>0\<close> as bools, an
  int that a float holds exactly as that float, an epoch number as it stands and one ISO
  text (the examples hand it nothing else to convert); the writer of that text; a sample
  of the bundled agent; a monitor with that agent online.\<close>

definition example_isoformat :: "datetime \<Rightarrow> string" where
  "example_isoformat t = ''2023-11-14T22:13:20''"

definition example_lib :: validation where
  "example_lib =
     \<lparr>lax_bool = (\<lambda>j. if j = JInt 1 then Some True else if j = JInt 0 then Some False else None),
      lax_int = (\<lambda>j. None),
      lax_float = (\<lambda>j. case j of
                          JInt i \<Rightarrow> if \<bar>i\<bar> \<le> 9007199254740992 then Some (of_int i) else None
                        | _ \<Rightarrow> None),
      validate_datetime =
        (\<lambda>j. case j of
                JInt n \<Rightarrow> Inr n
              | JStr s \<Rightarrow> if s = ''2023-11-14T22:13:20'' then Inr 1700000000000 else Inl ValidationError
              | _ \<Rightarrow> Inl ValidationError)\<rparr>"

definition example_report :: Report where
  "example_report =
     \<lparr>report_name = ''A1B2C3D4'', report_os = ''x86_64Linux6.1'', load = 1/2, cpus = 4,
      memory_total = None, memory_used = None, memory_percent = None,
      disk_total = None, disk_used = None, disk_percent = None,
      timestamp = Some 1700000000000\<rparr>"

definition example_online :: server_state where
  "example_online =
     \<lparr>registered_clients = [(''A1B2C3D4'', \<lparr>name = ''A1B2C3D4'', ip = ''127.0.0.1'', online = True\<rparr>)],
      offline_clients = [],
      active_connections = [1],
      db_clients = [\<lparr>db_name = ''A1B2C3D4'', db_ip = ''127.0.0.1'', db_online = True\<rparr>],
      db_records = []\<rparr>"



definition example_client :: Client where
  "example_client = \<lparr>name = ''A1B2C3D4'', ip = ''127.0.0.1'', online = True\<rparr>"

definition example_monitor :: monitor where
  "example_monitor = \<lparr>globals = example_online, endpoints = [(1, Some ''A1B2C3D4'')]\<rparr>"

text \<open>A register that lists the example agent, and what happens to it afterwards.\<close>

definition example_registered :: register_state where
  "example_registered =
     \<lparr>reg_registered_clients = [(''A1B2C3D4'', example_client)],
      registered_servers = [], reg_active_connections = [1]\<rparr>"

definition example_register_events :: "register_event list" where
  "example_register_events =
     [RegDisconnect 1,
      RegReceive (send_command (create_server_online \<lparr>server_id = None, server_ip = ''10.0.0.9''\<rparr>)),
      RegReceive NotJson,
      RegConnect 2,
      RegReceive (send_command (create_client_register \<lparr>name = ''E5F6A7B8'', ip = ''127.0.0.1'', online = True\<rparr>)),
      RegDisconnect 2]"

text \<open>Two stored samples of one agent with the same timestamp, in the order of insertion.\<close>

definition example_tie :: "Record list" where
  "example_tie =
     [\<lparr>record_name = ''A1B2C3D4'', record_os = ''x86_64Linux6.1'', record_load = 1/2, record_cpus = 4,
       record_memory_total = 16, record_memory_used = 8, record_memory_percent = 50,
       record_disk_total = 100, record_disk_used = 40, record_disk_percent = 40,
       record_timestamp = 1700000000000\<rparr>,
      \<lparr>record_name = ''A1B2C3D4'', record_os = ''x86_64Linux6.1'', record_load = 3/2, record_cpus = 4,
       record_memory_total = 16, record_memory_used = 9, record_memory_percent = 56,
       record_disk_total = 100, record_disk_used = 40, record_disk_percent = 40,
       record_timestamp = 1700000000000\<rparr>]"



definition example_two_channels :: "event list" where
  "example_two_channels =
     [Connect 1, Receive 1 0 (send_command (create_client_online example_client)),
      Connect 2, Receive 2 5 (send_command (create_client_online example_client)),
      Disconnect 1]"




text \<open>The second announcement of the run with two channels, with \<open>online\<close> written as \<open>1\<close>.\<close>

definition example_online_as_number :: frame where
  "example_online_as_number =
     Json (JObj [(''type'', JStr ''CLIENT_ONLINE''),
                 (''contents'', JObj [(''client'',
                    JObj [(''name'', JStr ''A1B2C3D4''), (''ip'', JStr ''127.0.0.1''),
                          (''online'', JInt 1)])])])"


section \<open>The envelope on the wire\<close>

lemma Client_roundtrip: "Client_init v (Client_model_dump c) = Inr c"
  by (simp add: Client_init_def Client_model_dump_def and_then_def required_def)

lemma Command_roundtrip: "Command_init (Command_model_dump c) = Inr c"
  by (simp add: Command_init_def Command_model_dump_def)


section \<open>The register service\<close>

lemma register_receive_server_online:
  "register_receive v (send_command (create_server_online s)) st =
     (st\<lparr>registered_servers :=
          AList.update (server_ip s) \<lparr>server_id = None, server_ip = server_ip s\<rparr> (registered_servers st)\<rparr>, [])"
  by (simp add: register_receive_def send_command_def Command_roundtrip register_command_def
      create_server_online_def dict_get_def Server_init_def)

lemma register_receive_regist_valid:
  "client_regist_data data = Some j \<Longrightarrow> Client_init v j = Inr c \<Longrightarrow>
   register_receive v data st =
     (st\<lparr>reg_registered_clients := AList.update (name c) c (reg_registered_clients st)\<rparr>,
      (case registered_servers st of [] \<Rightarrow> [] | (_, server) # _ \<Rightarrow> [Server_model_dump server]))"
  by (auto simp: client_regist_data_def register_receive_def register_command_def
      split: sum.splits if_splits)

lemma register_receive_regist_invalid:
  "client_regist_data data = Some j \<Longrightarrow> Client_init v j = Inl e \<Longrightarrow>
   register_receive v data st = (st, [error_payload e])"
  by (auto simp: client_regist_data_def register_receive_def register_command_def
      split: sum.splits if_splits)

lemma client_regist_data_create:
  "client_regist_data (send_command (create_client_register c)) = Some (Client_model_dump c)"
  by (simp add: client_regist_data_def send_command_def Command_roundtrip create_client_register_def
      dict_get_def)

text \<open>
  C3, as the code has it. A frame with the type \<open>CLIENT_REGIST\<close> whose client
  validates (the frames made by \<open>Command.create_client_register\<close> are such frames, for
  every library) stores the client under its name, in place when the name is known and
  at the end otherwise, and leaves every other entry and the monitors as they were. The
  register sends something back on the channel exactly when \<open>registered_servers\<close> is not
  empty: nothing with no known monitor, and otherwise the one message
  \<open>{"id": ..., "ip": ...}\<close> of the monitor that was registered first. When the register
  knew no monitor and then handled the \<open>SERVER_ONLINE\<close> of a monitor at the address
  \<open>M\<close>, the answer to the \<open>CLIENT_REGIST\<close> that follows is \<open>{"id": null, "ip": M}\<close>.
  A frame with the type \<open>CLIENT_REGIST\<close> whose client does not validate stores nothing
  and is answered with the error payload, whatever monitors are known.
\<close>

theorem client_regist_reply:
  "(client_regist_data data = Some j \<and> Client_init v j = Inr c \<longrightarrow>
      reg_registered_clients (fst (register_receive v data st))
        = AList.update (name c) c (reg_registered_clients st)
      \<and> map_of (reg_registered_clients (fst (register_receive v data st))) (name c) = Some c
      \<and> (\<forall>k. k \<noteq> name c \<longrightarrow>
            map_of (reg_registered_clients (fst (register_receive v data st))) k
              = map_of (reg_registered_clients st) k)
      \<and> registered_servers (fst (register_receive v data st)) = registered_servers st
      \<and> (snd (register_receive v data st) \<noteq> [] \<longleftrightarrow> registered_servers st \<noteq> [])
      \<and> (registered_servers st = [] \<longrightarrow> snd (register_receive v data st) = [])
      \<and> (\<forall>a srv rest. registered_servers st = (a, srv) # rest \<longrightarrow>
            snd (register_receive v data st)
              = [JObj [(''id'', (case server_id srv of None \<Rightarrow> JNull | Some i \<Rightarrow> JInt i)),
                       (''ip'', JStr (server_ip srv))]]))
   \<and> (client_regist_data data = Some j \<and> Client_init v j = Inl e \<longrightarrow>
        register_receive v data st = (st, [JObj [(''error'', JStr (str_of_error e))]]))
   \<and> client_regist_data (send_command (create_client_register c')) = Some (Client_model_dump c')
   \<and> Client_init v (Client_model_dump c') = Inr c'
   \<and> (client_regist_data data = Some j \<and> Client_init v j = Inr c \<and> registered_servers st = [] \<longrightarrow>
        snd (register_receive v data
              (fst (register_receive v (send_command (create_server_online s)) st)))
          = [JObj [(''id'', JNull), (''ip'', JStr (server_ip s))]])"
proof (intro conjI impI)
  assume a: "client_regist_data data = Some j \<and> Client_init v j = Inr c"
  then have r: "register_receive v data st =
     (st\<lparr>reg_registered_clients := AList.update (name c) c (reg_registered_clients st)\<rparr>,
      (case registered_servers st of [] \<Rightarrow> [] | (_, server) # _ \<Rightarrow> [Server_model_dump server]))" for st
    by (simp add: register_receive_regist_valid)
  show "reg_registered_clients (fst (register_receive v data st))
        = AList.update (name c) c (reg_registered_clients st)"
    by (simp add: r)
  show "map_of (reg_registered_clients (fst (register_receive v data st))) (name c) = Some c"
    by (simp add: r update_conv')
  show "\<forall>k. k \<noteq> name c \<longrightarrow>
            map_of (reg_registered_clients (fst (register_receive v data st))) k
              = map_of (reg_registered_clients st) k"
    by (simp add: r update_conv')
  show "registered_servers (fst (register_receive v data st)) = registered_servers st"
    by (simp add: r)
  show "snd (register_receive v data st) \<noteq> [] \<longleftrightarrow> registered_servers st \<noteq> []"
    by (simp add: r split: list.splits)
  show "snd (register_receive v data st) = []" if "registered_servers st = []"
    using that by (simp add: r)
  show "\<forall>a srv rest. registered_servers st = (a, srv) # rest \<longrightarrow>
            snd (register_receive v data st)
              = [JObj [(''id'', (case server_id srv of None \<Rightarrow> JNull | Some i \<Rightarrow> JInt i)),
                       (''ip'', JStr (server_ip srv))]]"
    by (simp add: r Server_model_dump_def)
next
  assume "client_regist_data data = Some j \<and> Client_init v j = Inl e"
  then show "register_receive v data st = (st, [JObj [(''error'', JStr (str_of_error e))]])"
    by (simp add: register_receive_regist_invalid error_payload_def)
next
  show "client_regist_data (send_command (create_client_register c')) = Some (Client_model_dump c')"
    by (rule client_regist_data_create)
  show "Client_init v (Client_model_dump c') = Inr c'"
    by (rule Client_roundtrip)
next
  assume a: "client_regist_data data = Some j \<and> Client_init v j = Inr c \<and> registered_servers st = []"
  then show "snd (register_receive v data
              (fst (register_receive v (send_command (create_server_online s)) st)))
          = [JObj [(''id'', JNull), (''ip'', JStr (server_ip s))]]"
    by (simp add: register_receive_regist_valid register_receive_server_online Server_model_dump_def)
qed


theorem client_regist_reply_witness:
  "client_regist_data (send_command (create_client_register example_client))
     = Some (Client_model_dump example_client)
   \<and> Client_init example_lib (Client_model_dump example_client) = Inr example_client
   \<and> registered_servers register_init = []
   \<and> map_of (reg_registered_clients
        (fst (register_receive example_lib (send_command (create_client_register example_client))
               register_init))) ''A1B2C3D4'' = Some example_client
   \<and> snd (register_receive example_lib (send_command (create_client_register example_client))
            register_init) = []
   \<and> snd (register_receive example_lib (send_command (create_client_register example_client))
            (fst (register_receive example_lib
                   (send_command (create_server_online \<lparr>server_id = None, server_ip = ''10.0.0.9''\<rparr>))
                   register_init)))
       = [JObj [(''id'', JNull), (''ip'', JStr ''10.0.0.9'')]]
   \<and> client_regist_data (Json (JObj [(''type'', JStr ''CLIENT_REGIST''), (''contents'', JObj [])]))
     = Some JNull
   \<and> Client_init example_lib JNull = Inl TypeError
   \<and> register_receive example_lib
        (Json (JObj [(''type'', JStr ''CLIENT_REGIST''), (''contents'', JObj [])])) register_init
       = (register_init, [JObj [(''error'', JStr ''TypeError'')]])"
  using client_regist_reply
    [of "send_command (create_client_register example_client)" "Client_model_dump example_client"
        example_lib example_client register_init TypeError example_client
        "\<lparr>server_id = None, server_ip = ''10.0.0.9''\<rparr>"]
    client_regist_reply
    [of "Json (JObj [(''type'', JStr ''CLIENT_REGIST''), (''contents'', JObj [])])" JNull
        example_lib example_client register_init TypeError example_client
        "\<lparr>server_id = None, server_ip = ''10.0.0.9''\<rparr>"]
  by (simp add: register_init_def client_regist_data_def Command_init_def dict_get_def
      Client_init_def)
     (simp add: example_client_def)

text \<open>
  C3 as the claim words it, for every \<open>CLIENT_REGIST\<close>, does not hold: a
  \<open>CLIENT_REGIST\<close> without a client, received by a register that knows no monitor and
  no agent, is answered (with the error payload) and no entry is stored.
\<close>

theorem client_regist_without_client_counterexample:
  "client_regist_data (Json (JObj [(''type'', JStr ''CLIENT_REGIST''), (''contents'', JObj [])]))
     = Some JNull
   \<and> registered_servers register_init = []
   \<and> reg_registered_clients register_init = []
   \<and> register_receive example_lib
        (Json (JObj [(''type'', JStr ''CLIENT_REGIST''), (''contents'', JObj [])])) register_init
       = (register_init, [JObj [(''error'', JStr ''TypeError'')]])"
  by (simp add: client_regist_data_def Command_init_def dict_get_def register_init_def
      register_receive_def register_command_def Client_init_def error_payload_def)


lemma register_receive_clients:
  "map_of (reg_registered_clients (fst (register_receive v data st))) n = Some c' \<Longrightarrow>
     map_of (reg_registered_clients st) n = Some c' \<or> registered_client_of v data = Some c'"
  by (auto simp: register_receive_def registered_client_of_def register_command_def update_conv'
      split: sum.splits if_splits list.splits)

lemma register_receive_client_frame:
  "registered_client_of v data = Some c \<Longrightarrow>
   reg_registered_clients (fst (register_receive v data st))
     = AList.update (name c) c (reg_registered_clients st)"
  by (auto simp: registered_client_of_def register_receive_def register_command_def
      split: sum.splits if_splits list.splits)

lemma register_receive_no_client:
  "registered_client_of v data = None \<Longrightarrow>
   reg_registered_clients (fst (register_receive v data st)) = reg_registered_clients st"
  by (auto simp: registered_client_of_def register_receive_def register_command_def
      split: sum.splits if_splits list.splits)

lemma registered_client_of_create:
  "registered_client_of v (send_command (create_client_register c)) = Some c"
  "registered_client_of v (send_command (create_client_online c)) = Some c"
  by (simp_all add: registered_client_of_def send_command_def Command_roundtrip
      create_client_register_def create_client_online_def dict_get_def Client_roundtrip)

lemma register_step_keeps:
  assumes "\<not> brings_client v k e"
  shows "map_of (reg_registered_clients (register_step v st e)) k = map_of (reg_registered_clients st) k"
proof (cases e)
  case (RegConnect ws)
  then show ?thesis by (simp add: register_connect_def)
next
  case (RegReceive data)
  show ?thesis
  proof (cases "registered_client_of v data")
    case None
    then show ?thesis by (simp add: RegReceive register_receive_no_client)
  next
    case (Some c)
    with assms RegReceive have "name c \<noteq> k" by simp
    with Some show ?thesis
      by (simp add: RegReceive register_receive_client_frame update_conv')
  qed
next
  case (RegDisconnect ws)
  then show ?thesis by (simp add: register_disconnect_def)
qed

lemma register_run_keeps:
  "\<not> list_ex (brings_client v k) evs \<Longrightarrow>
     map_of (reg_registered_clients (register_run v st evs)) k = map_of (reg_registered_clients st) k"
proof (induction evs arbitrary: st)
  case Nil
  then show ?case by (simp add: register_run_def)
next
  case (Cons e evs)
  from Cons.prems have e: "\<not> brings_client v k e" and rest: "\<not> list_ex (brings_client v k) evs"
    by simp_all
  have "map_of (reg_registered_clients (register_run v (register_step v st e) evs)) k
      = map_of (reg_registered_clients (register_step v st e)) k"
    using rest by (rule Cons.IH)
  also have "\<dots> = map_of (reg_registered_clients st) k"
    using e by (rule register_step_keeps)
  finally show ?case by (simp add: register_run_def)
qed

text \<open>
  C10. For every frame that is a \<open>CLIENT_REGIST\<close> or a \<open>CLIENT_ONLINE\<close> with a
  client that validates (the frames of the bundled agent are such frames), the register
  stores the client as it was sent, its \<open>online\<close> flag included; a client sent without
  the flag is stored with \<open>online = True\<close>. Every other frame leaves
  \<open>registered_clients\<close> as it is, and so do the start and the end of a channel.
  Whatever frame arrives, an entry of the directory afterwards is either the entry that
  was there before or the client that the frame itself carried: the register never
  writes \<open>online = False\<close> of its own accord. And through any sequence of connections,
  frames and disconnections in which no frame brings a client of the name \<open>k\<close>, the
  entry of \<open>k\<close> stays what it was: an agent listed as online stays listed as online
  after its process is gone, for as long as the register runs.
\<close>

theorem register_never_sets_offline:
  "(registered_client_of v data = Some c \<longrightarrow>
      reg_registered_clients (fst (register_receive v data st))
        = AList.update (name c) c (reg_registered_clients st))
   \<and> (registered_client_of v data = None \<longrightarrow>
      reg_registered_clients (fst (register_receive v data st)) = reg_registered_clients st)
   \<and> registered_client_of v (send_command (create_client_register c0)) = Some c0
   \<and> registered_client_of v (send_command (create_client_online c0)) = Some c0
   \<and> Client_init v (JObj [(''name'', JStr n), (''ip'', JStr i)]) = Inr \<lparr>name = n, ip = i, online = True\<rparr>
   \<and> reg_registered_clients (snd (register_disconnect websocket st)) = reg_registered_clients st
   \<and> reg_registered_clients (register_connect websocket st) = reg_registered_clients st
   \<and> (map_of (reg_registered_clients (fst (register_receive v data st))) k = Some c' \<longrightarrow>
        map_of (reg_registered_clients st) k = Some c' \<or> registered_client_of v data = Some c')
   \<and> (\<not> list_ex (brings_client v k) evs \<longrightarrow>
        map_of (reg_registered_clients (register_run v st evs)) k
          = map_of (reg_registered_clients st) k)"
  using register_receive_clients [of v data st k c'] register_receive_client_frame [of v data c st]
    register_receive_no_client [of v data st] register_run_keeps [of v k evs st]
  by (simp add: registered_client_of_create Client_init_def and_then_def required_def
      register_disconnect_def register_connect_def)


lemma registered_client_of_server_online:
  "registered_client_of v (send_command (create_server_online s)) = None"
  by (simp add: registered_client_of_def send_command_def Command_roundtrip create_server_online_def)

lemma example_register_events_bring_no_client:
  "\<not> list_ex (brings_client example_lib ''A1B2C3D4'') example_register_events"
  by (simp add: example_register_events_def registered_client_of_create
      registered_client_of_server_online)
     (simp add: registered_client_of_def)

theorem register_never_sets_offline_witness:
  "registered_client_of example_lib (send_command (create_client_register example_client))
     = Some example_client
   \<and> reg_registered_clients
        (fst (register_receive example_lib (send_command (create_client_register example_client))
               (register_connect 1 register_init)))
       = [(''A1B2C3D4'', \<lparr>name = ''A1B2C3D4'', ip = ''127.0.0.1'', online = True\<rparr>)]
   \<and> registered_client_of example_lib NotJson = None
   \<and> reg_registered_clients (fst (register_receive example_lib NotJson example_registered))
       = [(''A1B2C3D4'', example_client)]
   \<and> map_of (reg_registered_clients (fst (register_receive example_lib NotJson example_registered)))
        ''A1B2C3D4'' = Some example_client
   \<and> \<not> list_ex (brings_client example_lib ''A1B2C3D4'') example_register_events
   \<and> map_of (reg_registered_clients
               (register_run example_lib example_registered example_register_events)) ''A1B2C3D4''
       = Some \<lparr>name = ''A1B2C3D4'', ip = ''127.0.0.1'', online = True\<rparr>"
  using register_never_sets_offline
    [of example_lib "send_command (create_client_register example_client)" example_client
        "register_connect 1 register_init" example_client "''A1B2C3D4''" "''127.0.0.1''" 1
        "''A1B2C3D4''" example_client example_register_events]
    register_never_sets_offline
    [of example_lib NotJson example_client example_registered example_client
        "''A1B2C3D4''" "''127.0.0.1''" 1 "''A1B2C3D4''" example_client example_register_events]
    example_register_events_bring_no_client
  by (simp add: register_init_def register_connect_def example_registered_def)
     (simp add: example_client_def registered_client_of_def)


section \<open>Reports\<close>

lemma optional_float_roundtrip: "optional (float_value v) (Some (optional_float_dump x)) = Inr x"
  by (cases x) (simp_all add: optional_def)

lemma Report_roundtrip:
  assumes "\<And>t. timestamp r = Some t \<Longrightarrow> validate_datetime v (JStr (isoformat t)) = Inr t"
  shows "Report_init v (dict_get (contents (create_client_report isoformat r)) ''report'') = Inr r"
proof -
  have ts: "optional (validate_datetime v)
              (Some (case timestamp r of None \<Rightarrow> JNull | Some t \<Rightarrow> JStr (isoformat t))) = Inr (timestamp r)"
    using assms by (cases "timestamp r") (simp_all add: optional_def)
  show ?thesis
    by (simp add: Report_init_def create_client_report_def dict_get_def and_then_def
        required_def optional_float_roundtrip ts)
qed



lemma RecordDAO_create_lacking:
  "lacks_memory_or_disk r \<Longrightarrow> RecordDAO_create now db (to_db_dict now' r) = Inl IntegrityError"
  by (auto simp: lacks_memory_or_disk_def RecordDAO_create_def to_db_dict_def split: option.splits)

lemma server_receive_lacking:
  assumes "received_report v data = Some r" and "lacks_memory_or_disk r"
  shows "server_receive v now data cn st = (cn, st, [])"
  using assms RecordDAO_create_lacking [of r now "db_records st" now]
  by (auto simp: received_report_def server_receive_def server_command_def
      split: sum.splits if_splits)

lemma get_system_report_fields:
  assumes "Report_init v (get_system_report client_name os_info avg_load cpu_count time_ms) = Inr r"
  shows "memory_total r = None \<and> memory_used r = None \<and> memory_percent r = None \<and>
         disk_total r = None \<and> disk_used r = None \<and> disk_percent r = None"
  using assms
  by (auto simp: Report_init_def get_system_report_def and_then_def required_def optional_def
      split: sum.splits)

text \<open>
  C9. When the report decoded from a frame has \<open>None\<close> in one of the six memory and
  disk fields, \<open>RecordDAO.create\<close> raises \<open>IntegrityError\<close>; the handler catches it:
  the state, the tables included, is as before, \<open>client_name\<close> is as before, and
  nothing is sent on the channel; the handler keeps running on its websocket, and the
  monitor as a whole is what it was before the frame. Every report built
  from \<open>SystemInfo.get_system_report\<close> has \<open>None\<close> in all six fields, so the frame the
  agent sends for it is dropped in this way.
\<close>

theorem report_without_memory_or_disk_is_lost:
  "(received_report v data = Some r \<and> lacks_memory_or_disk r \<longrightarrow>
      RecordDAO_create now (db_records st) (to_db_dict now r) = Inl IntegrityError
      \<and> server_receive v now data cn st = (cn, st, []))
   \<and> (Report_init v (get_system_report client_name os_info avg_load cpu_count time_ms) = Inr r' \<longrightarrow>
        memory_total r' = None \<and> memory_used r' = None \<and> memory_percent r' = None \<and>
        disk_total r' = None \<and> disk_used r' = None \<and> disk_percent r' = None
        \<and> lacks_memory_or_disk r')
   \<and> (Report_init v (get_system_report client_name os_info avg_load cpu_count time_ms) = Inr r'
        \<and> (\<forall>t. timestamp r' = Some t \<longrightarrow> validate_datetime v (JStr (isoformat t)) = Inr t) \<longrightarrow>
        server_receive v now (send_command (create_client_report isoformat r')) cn st = (cn, st, []))
   \<and> (received_report v data = Some r \<and> lacks_memory_or_disk r
        \<and> map_of (endpoints m) ws = Some cn \<longrightarrow>
        monitor_step v m (Receive ws now data) = m)"
proof (intro conjI impI)
  assume a: "received_report v data = Some r \<and> lacks_memory_or_disk r"
  then show "RecordDAO_create now (db_records st) (to_db_dict now r) = Inl IntegrityError"
    by (simp add: RecordDAO_create_lacking)
  from a show "server_receive v now data cn st = (cn, st, [])"
    by (simp add: server_receive_lacking)
next
  assume a: "Report_init v (get_system_report client_name os_info avg_load cpu_count time_ms) = Inr r'"
  from get_system_report_fields [OF a]
  show "memory_total r' = None" "memory_used r' = None" "memory_percent r' = None"
       "disk_total r' = None" "disk_used r' = None" "disk_percent r' = None"
       "lacks_memory_or_disk r'"
    by (simp_all add: lacks_memory_or_disk_def)
next
  assume a: "Report_init v (get_system_report client_name os_info avg_load cpu_count time_ms) = Inr r'
        \<and> (\<forall>t. timestamp r' = Some t \<longrightarrow> validate_datetime v (JStr (isoformat t)) = Inr t)"
  then have "lacks_memory_or_disk r'"
    using get_system_report_fields [of v client_name os_info avg_load cpu_count time_ms r']
    by (simp add: lacks_memory_or_disk_def)
  moreover from a have "received_report v (send_command (create_client_report isoformat r')) = Some r'"
    using Report_roundtrip [of r' v isoformat]
    by (simp add: received_report_def send_command_def Command_roundtrip create_client_report_def)
  ultimately show "server_receive v now (send_command (create_client_report isoformat r')) cn st = (cn, st, [])"
    by (rule server_receive_lacking [rotated])
next
  assume a: "received_report v data = Some r \<and> lacks_memory_or_disk r
        \<and> map_of (endpoints m) ws = Some cn"
  then have "server_receive v now data cn (globals m) = (cn, globals m, [])"
    by (simp add: server_receive_lacking)
  with a show "monitor_step v m (Receive ws now data) = m"
    by (simp add: update_triv)
qed


lemma example_sample:
  "Report_init example_lib (get_system_report ''A1B2C3D4'' ''x86_64Linux6.1'' (1/2) 4 1700000000000)
     = Inr example_report"
  by (simp add: Report_init_def get_system_report_def and_then_def required_def optional_def
      example_lib_def example_report_def)

lemma example_received:
  "received_report example_lib (send_command (create_client_report example_isoformat example_report))
     = Some example_report"
  using Report_roundtrip [of example_report example_lib example_isoformat]
  by (simp add: received_report_def send_command_def Command_roundtrip create_client_report_def
      example_report_def example_lib_def example_isoformat_def)

theorem report_without_memory_or_disk_is_lost_witness:
  "received_report example_lib
     (send_command (create_client_report example_isoformat example_report)) = Some example_report
   \<and> lacks_memory_or_disk example_report
   \<and> Report_init example_lib
        (get_system_report ''A1B2C3D4'' ''x86_64Linux6.1'' (1/2) 4 1700000000000) = Inr example_report
   \<and> timestamp example_report = Some 1700000000000
   \<and> validate_datetime example_lib (JStr (example_isoformat 1700000000000)) = Inr 1700000000000
   \<and> RecordDAO_create 1700000000001 (db_records example_online)
        (to_db_dict 1700000000001 example_report) = Inl IntegrityError
   \<and> server_receive example_lib 1700000000001
        (send_command (create_client_report example_isoformat example_report))
        (Some ''A1B2C3D4'') example_online
       = (Some ''A1B2C3D4'', example_online, [])
   \<and> map_of (endpoints example_monitor) 1 = Some (Some ''A1B2C3D4'')
   \<and> monitor_step example_lib example_monitor
        (Receive 1 1700000000001 (send_command (create_client_report example_isoformat example_report)))
       = example_monitor"
  using report_without_memory_or_disk_is_lost
    [where v = example_lib
       and data = "send_command (create_client_report example_isoformat example_report)"
       and r = example_report and now = 1700000000001 and st = example_online
       and cn = "Some ''A1B2C3D4''" and client_name = "''A1B2C3D4''"
       and os_info = "''x86_64Linux6.1''" and avg_load = "1/2" and cpu_count = 4
       and time_ms = 1700000000000 and r' = example_report and isoformat = example_isoformat
       and m = example_monitor and ws = 1]
    example_sample example_received
  by (simp add: lacks_memory_or_disk_def)
     (simp add: example_report_def example_lib_def example_isoformat_def example_monitor_def)

section \<open>Protocol errors\<close>















section \<open>Deleting an agent\<close>

lemma ClientDAO_delete_found:
  "fst (ClientDAO_delete db n) = (n \<in> set (map db_name db))"
  by (induction db) (auto split: prod.splits)

lemma ClientDAO_delete_names:
  "distinct (map db_name db) \<Longrightarrow> set (map db_name (snd (ClientDAO_delete db n))) = set (map db_name db) - {n}"
proof (induction db)
  case Nil
  then show ?case by simp
next
  case (Cons c db)
  show ?case
  proof (cases "db_name c = n")
    case True
    with Cons.prems show ?thesis by auto
  next
    case False
    with Cons show ?thesis by (cases "ClientDAO_delete db n") auto
  qed
qed

lemma ClientDAO_delete_absent:
  "n \<notin> set (map db_name db) \<Longrightarrow> ClientDAO_delete db n = (False, db)"
  by (induction db) (auto split: prod.splits)

lemma delete_client_found:
  assumes "n \<in> set (map db_name (db_clients st))"
  shows "delete_client n st =
     (JObj [],
      st\<lparr>db_clients := snd (ClientDAO_delete (db_clients st) n),
         registered_clients := AList.delete n (registered_clients st),
         offline_clients := filter (\<lambda>c. name c \<noteq> n) (offline_clients st)\<rparr>)"
  using assms ClientDAO_delete_found [of "db_clients st" n]
  by (cases "ClientDAO_delete (db_clients st) n") (simp add: delete_client_def)

lemma delete_client_absent:
  "n \<notin> set (map db_name (db_clients st)) \<Longrightarrow>
     delete_client n st = (JObj [(''error'', JStr ''Client not found'')], st)"
  by (simp add: delete_client_def ClientDAO_delete_absent)

lemma delete_client_connections:
  "active_connections (snd (delete_client n st)) = active_connections st"
  by (cases "n \<in> set (map db_name (db_clients st))")
     (simp_all add: delete_client_found delete_client_absent)



lemma delete_client_sessions:
  "live_session (m\<lparr>globals := snd (delete_client n (globals m))\<rparr>) k = live_session m k"
  by (simp add: live_session_def delete_client_connections)

text \<open>
  C4, as the code has it. \<open>delete_client\<close> looks at the table only. When the table
  has a row of the name (names are unique in the table), the answer is \<open>{}\<close> and the
  name is gone from the table, from \<open>registered_clients\<close> and from \<open>offline_clients\<close>,
  whether the agent was online or not; when it has none, the answer is the error and
  nothing changes. In both cases the connection list and the running handlers are left
  alone: every session that existed still exists.
\<close>

theorem delete_client_effect:
  "(n \<in> set (map db_name (db_clients st)) \<and> distinct (map db_name (db_clients st)) \<longrightarrow>
      fst (delete_client n st) = JObj []
      \<and> n \<notin> set (map db_name (db_clients (snd (delete_client n st))))
      \<and> map_of (registered_clients (snd (delete_client n st))) n = None
      \<and> n \<notin> set (map name (offline_clients (snd (delete_client n st)))))
   \<and> (n \<notin> set (map db_name (db_clients st)) \<longrightarrow>
        delete_client n st = (JObj [(''error'', JStr ''Client not found'')], st))
   \<and> active_connections (snd (delete_client n st)) = active_connections st
   \<and> live_session (m\<lparr>globals := snd (delete_client n (globals m))\<rparr>) k = live_session m k"
proof (intro conjI impI)
  assume a: "n \<in> set (map db_name (db_clients st)) \<and> distinct (map db_name (db_clients st))"
  then show "fst (delete_client n st) = JObj []"
    by (simp add: delete_client_found)
  from a ClientDAO_delete_names [of "db_clients st" n]
  show "n \<notin> set (map db_name (db_clients (snd (delete_client n st))))"
    by (simp add: delete_client_found)
  from a show "map_of (registered_clients (snd (delete_client n st))) n = None"
    by (simp add: delete_client_found delete_conv')
  from a show "n \<notin> set (map name (offline_clients (snd (delete_client n st))))"
    by (auto simp: delete_client_found)
next
  assume "n \<notin> set (map db_name (db_clients st))"
  then show "delete_client n st = (JObj [(''error'', JStr ''Client not found'')], st)"
    by (rule delete_client_absent)
next
  show "active_connections (snd (delete_client n st)) = active_connections st"
    by (rule delete_client_connections)
  show "live_session (m\<lparr>globals := snd (delete_client n (globals m))\<rparr>) k = live_session m k"
    by (rule delete_client_sessions)
qed


theorem delete_client_effect_witness:
  "''A1B2C3D4'' \<in> set (map db_name (db_clients example_online))
   \<and> distinct (map db_name (db_clients example_online))
   \<and> fst (delete_client ''A1B2C3D4'' example_online) = JObj []
   \<and> ''A1B2C3D4'' \<notin> set (map db_name (db_clients (snd (delete_client ''A1B2C3D4'' example_online))))
   \<and> active_connections (snd (delete_client ''A1B2C3D4'' example_online)) = [1]
   \<and> ''Z9Y8X7W6'' \<notin> set (map db_name (db_clients example_online))
   \<and> delete_client ''Z9Y8X7W6'' example_online
        = (JObj [(''error'', JStr ''Client not found'')], example_online)"
  using delete_client_effect [of "''A1B2C3D4''" example_online example_monitor "''A1B2C3D4''"]
    delete_client_effect [of "''Z9Y8X7W6''" example_online example_monitor "''A1B2C3D4''"]
  by (simp add: example_online_def)

text \<open>
  C4 as the claim words it does not hold: an agent connects and announces itself, so
  it is online and has a session; the delete succeeds; the identity is gone from the
  table and from both in-memory lists, the agent was never put into \<open>offline_clients\<close>,
  and its session is still there.
\<close>

theorem delete_online_agent_counterexample:
  "run example_lib monitor_init
      [Connect 1, Receive 1 0 (send_command (create_client_online example_client))] = example_monitor
   \<and> online_flag example_monitor ''A1B2C3D4''
   \<and> live_session example_monitor ''A1B2C3D4''
   \<and> delete_client ''A1B2C3D4'' (globals example_monitor)
      = (JObj [], \<lparr>registered_clients = [], offline_clients = [], active_connections = [1],
                   db_clients = [], db_records = []\<rparr>)
   \<and> live_session (example_monitor\<lparr>globals := snd (delete_client ''A1B2C3D4'' (globals example_monitor))\<rparr>)
        ''A1B2C3D4''"
proof -
  have r: "server_receive example_lib 0 (send_command (create_client_online example_client)) None st
        = (Some ''A1B2C3D4'',
           st\<lparr>registered_clients := AList.update ''A1B2C3D4'' example_client (registered_clients st),
              db_clients := ClientDAO_create_or_update (db_clients st) ''A1B2C3D4'' ''127.0.0.1'' True,
              offline_clients := filter (\<lambda>c. name c \<noteq> ''A1B2C3D4'') (offline_clients st)\<rparr>, [])" for st
    by (simp add: server_receive_def send_command_def Command_roundtrip
      server_command_def create_client_online_def dict_get_def Client_roundtrip example_client_def)
  have 1: "run example_lib monitor_init
      [Connect 1, Receive 1 0 (send_command (create_client_online example_client))] = example_monitor"
    by (simp add: run_def monitor_init_def server_init_def r)
       (simp add: example_monitor_def example_online_def example_client_def)
  have 2: "delete_client ''A1B2C3D4'' (globals example_monitor)
      = (JObj [], \<lparr>registered_clients = [], offline_clients = [], active_connections = [1],
                   db_clients = [], db_records = []\<rparr>)"
    by (simp add: example_monitor_def example_online_def delete_client_def)
  show ?thesis
    unfolding 1 2
    by (simp add: example_monitor_def example_online_def online_flag_def get_clients_def
        ClientDAO_get_online_def live_session_def)
qed




section \<open>The latest sample of each agent\<close>

text \<open>
  C5. For a table with two samples of one agent that share the greatest timestamp,
  \<open>RecordDAO.get_all_latest\<close> raises \<open>AttributeError\<close> and returns no sample; the
  query it was writing down keeps both rows of the tie, not the later one alone.
\<close>

theorem get_all_latest_fails:
  "RecordDAO_get_all_latest example_tie = Inl AttributeError
   \<and> get_all_latest_query example_tie = example_tie
   \<and> length (get_all_latest_query example_tie) = 2"
  by (simp add: RecordDAO_get_all_latest_def get_all_latest_query_def max_timestamp_def example_tie_def)

section \<open>The end of a telemetry channel\<close>

lemma server_disconnect_connections:
  "websocket \<in> set (active_connections st) \<Longrightarrow>
     active_connections (snd (server_disconnect websocket cn st)) = remove1 websocket (active_connections st)"
  by (simp add: server_disconnect_def Let_def split: option.splits)

lemma server_disconnect_absent:
  "websocket \<notin> set (active_connections st) \<Longrightarrow> server_disconnect websocket cn st = (Some ValueError, st)"
  by (simp add: server_disconnect_def)

lemma server_disconnect_twice:
  assumes "distinct (active_connections st)"
  shows "server_disconnect websocket cn (snd (server_disconnect websocket cn st))
           = (Some ValueError, snd (server_disconnect websocket cn st))"
proof (cases "websocket \<in> set (active_connections st)")
  case True
  with assms have "websocket \<notin> set (active_connections (snd (server_disconnect websocket cn st)))"
    by (simp add: server_disconnect_connections)
  then show ?thesis by (rule server_disconnect_absent)
next
  case False
  then show ?thesis by (simp add: server_disconnect_absent)
qed

lemma monitor_disconnect_twice:
  "monitor_step v (monitor_step v m (Disconnect ws)) (Disconnect ws) = monitor_step v m (Disconnect ws)"
  by (cases "map_of (endpoints m) ws") (simp_all add: delete_conv')

text \<open>
  C2. Running the \<open>except WebSocketDisconnect\<close> branch a second time for the same
  websocket and the same \<open>client_name\<close> leaves \<open>registered_clients\<close>,
  \<open>offline_clients\<close> and both tables exactly as the first run left them: the websocket
  is no longer in the connection list (each websocket is in it once), so
  \<open>manager.disconnect\<close> raises \<open>ValueError\<close> before anything is written. Over time,
  the call of \<open>websocket_endpoint\<close> has ended after the first disconnect, so a second
  disconnect of the same channel finds no handler and changes nothing.
\<close>

theorem disconnect_twice_is_disconnect_once:
  "(distinct (active_connections st) \<longrightarrow>
      server_disconnect websocket cn (snd (server_disconnect websocket cn st))
        = (Some ValueError, snd (server_disconnect websocket cn st)))
   \<and> monitor_step v (monitor_step v m (Disconnect ws)) (Disconnect ws) = monitor_step v m (Disconnect ws)"
  using server_disconnect_twice [of st websocket cn] monitor_disconnect_twice [of v m ws]
  by simp

theorem disconnect_twice_is_disconnect_once_witness:
  "distinct (active_connections example_online)
   \<and> snd (server_disconnect 1 (Some ''A1B2C3D4'') example_online)
       = \<lparr>registered_clients = [(''A1B2C3D4'', \<lparr>name = ''A1B2C3D4'', ip = ''127.0.0.1'', online = False\<rparr>)],
          offline_clients = [\<lparr>name = ''A1B2C3D4'', ip = ''127.0.0.1'', online = False\<rparr>],
          active_connections = [],
          db_clients = [\<lparr>db_name = ''A1B2C3D4'', db_ip = ''127.0.0.1'', db_online = False\<rparr>],
          db_records = []\<rparr>
   \<and> server_disconnect 1 (Some ''A1B2C3D4'') (snd (server_disconnect 1 (Some ''A1B2C3D4'') example_online))
       = (Some ValueError, snd (server_disconnect 1 (Some ''A1B2C3D4'') example_online))
   \<and> monitor_step example_lib (monitor_step example_lib example_monitor (Disconnect 1)) (Disconnect 1)
       = \<lparr>globals = snd (server_disconnect 1 (Some ''A1B2C3D4'') example_online), endpoints = []\<rparr>"
  using disconnect_twice_is_disconnect_once
    [of example_online 1 "Some ''A1B2C3D4''" example_lib example_monitor 1]
  by (simp add: example_online_def example_monitor_def server_disconnect_def)

section \<open>The online flag and the sessions\<close>

subsection \<open>The two tables\<close>






subsection \<open>One frame\<close>




subsection \<open>One event\<close>























lemma server_receive_client_online:
  "server_receive v now (send_command (create_client_online c)) cn st =
     (Some (name c),
      st\<lparr>registered_clients := AList.update (name c) c (registered_clients st),
         db_clients := ClientDAO_create_or_update (db_clients st) (name c) (ip c) True,
         offline_clients := filter (\<lambda>x. name x \<noteq> name c) (offline_clients st)\<rparr>,
      [])"
  by (simp add: server_receive_def send_command_def Command_roundtrip server_command_def
      create_client_online_def dict_get_def Client_roundtrip)

lemma announced_client_online: "announced v (send_command (create_client_online c)) = Some c"
  by (simp add: announced_def send_command_def Command_roundtrip create_client_online_def
      dict_get_def Client_roundtrip)








lemma run_two_channels:
  "run example_lib monitor_init example_two_channels =
     \<lparr>globals =
        \<lparr>registered_clients = [(''A1B2C3D4'', \<lparr>name = ''A1B2C3D4'', ip = ''127.0.0.1'', online = False\<rparr>)],
         offline_clients = [\<lparr>name = ''A1B2C3D4'', ip = ''127.0.0.1'', online = False\<rparr>],
         active_connections = [2],
         db_clients = [\<lparr>db_name = ''A1B2C3D4'', db_ip = ''127.0.0.1'', db_online = False\<rparr>],
         db_records = []\<rparr>,
      endpoints = [(2, Some ''A1B2C3D4'')]\<rparr>"
  by (simp add: example_two_channels_def run_def monitor_init_def server_init_def
      server_receive_client_online)
     (simp add: example_client_def server_disconnect_def)



text \<open>
  The discipline looks at what the library makes of a frame: with a library that reads
  \<open>1\<close> as \<open>True\<close>, an announcement with \<open>online\<close> written as \<open>1\<close> is an announcement,
  and a run in which it comes on a second channel while the first holds the name is not
  disciplined.
\<close>

lemma online_as_number_is_announced:
  "announced example_lib example_online_as_number = Some example_client
   \<and> \<not> disciplined_run example_lib monitor_init
        [Connect 1, Receive 1 0 (send_command (create_client_online example_client)),
         Connect 2, Receive 2 5 example_online_as_number, Disconnect 1]"
proof -
  have a: "announced example_lib example_online_as_number = Some example_client"
    by (simp add: announced_def example_online_as_number_def Command_init_def dict_get_def
        Client_init_def and_then_def required_def converted_def example_lib_def example_client_def)
  show ?thesis
    by (simp add: a monitor_init_def server_init_def announced_client_online
        server_receive_client_online)
qed



text \<open>
  The branch that handles the end of a channel does not look at whether the agent is
  offline already. When the second channel of the run above ends too, the agent is
  appended to \<open>offline_clients\<close> a second time; \<open>GET /alert\<close> still lists it once.
\<close>

lemma second_channel_offline_entry:
  "offline_clients (globals (run example_lib monitor_init (example_two_channels @ [Disconnect 2])))
     = [\<lparr>name = ''A1B2C3D4'', ip = ''127.0.0.1'', online = False\<rparr>,
        \<lparr>name = ''A1B2C3D4'', ip = ''127.0.0.1'', online = False\<rparr>]
   \<and> get_offline_clients (globals (run example_lib monitor_init (example_two_channels @ [Disconnect 2])))
     = [\<lparr>name = ''A1B2C3D4'', ip = ''127.0.0.1'', online = False\<rparr>]"
proof -
  have "run example_lib monitor_init (example_two_channels @ [Disconnect 2])
      = monitor_step example_lib (run example_lib monitor_init example_two_channels) (Disconnect 2)"
    by (simp add: run_def)
  then show ?thesis
    by (simp add: run_two_channels server_disconnect_def get_offline_clients_def ClientDAO_get_all_def)
qed

end
